theory Spec2Isabelle
  imports Main
begin

section \<open>Evaluation of bash-like configuration values (cibuildwheel/bashlex\_eval.py)\<close>

text \<open>
  The module evaluates one shell word against an environment: literal text, parameter
  expansion and command substitution. Two collaborators are not part of the module: the
  parser (\<^verbatim>\<open>bashlex.parsesingle\<close>), which is a parameter of the model, and the
  tokenizer \<^verbatim>\<open>shlex.split\<close> of the Python standard library, which is modelled below
  from CPython's \<^verbatim>\<open>Lib/shlex.py\<close>, since the result of every word goes through it.

  Strings are lists of 8-bit characters; Python exceptions are values of the type
  \<open>error\<close>, the left summand of every result.
\<close>

subsection \<open>Exceptions\<close>

datatype error =
    ValueError string
  | IndexError string
  | AttributeError string
  | ParsingError string
  | CalledProcessError int string
  | OtherError string

abbreviation dquote :: char where
  "dquote \<equiv> CHR 0x22"

abbreviation squote :: char where
  "squote \<equiv> CHR 0x27"

abbreviation backslash :: char where
  "backslash \<equiv> CHR 0x5C"

subsection \<open>Python string and list primitives used by the module\<close>

text \<open>\<^verbatim>\<open>sep.join(xs)\<close>.\<close>

fun join :: "string \<Rightarrow> string list \<Rightarrow> string" where
  "join sep [] = []"
| "join sep [x] = x"
| "join sep (x # y # ys) = x @ sep @ join sep (y # ys)"

text \<open>
  \<^verbatim>\<open>str.isspace\<close> on one character, for the code points below 256: tab, line feed,
  vertical tab, form feed, carriage return, the separators 0x1C to 0x1F, space, 0x85 and
  0xA0.
\<close>

definition isspace :: "char \<Rightarrow> bool" where
  "isspace c \<longleftrightarrow> c \<in> set [CHR 0x09, CHR 0x0A, CHR 0x0B, CHR 0x0C, CHR 0x0D,
     CHR 0x1C, CHR 0x1D, CHR 0x1E, CHR 0x1F, CHR 0x20, CHR 0x85, CHR 0xA0]"

text \<open>\<^verbatim>\<open>s.strip()\<close>: whitespace removed at both ends.\<close>

definition strip :: "string \<Rightarrow> string" where
  "strip s = rev (dropWhile isspace (rev (dropWhile isspace s)))"

text \<open>
  \<^verbatim>\<open>s[a:b]\<close>: a negative index counts from the end, and both indices are clamped to
  the length, so that a slice never raises.
\<close>

definition slice_index :: "nat \<Rightarrow> int \<Rightarrow> nat" where
  "slice_index n i =
     (let j = (if i < 0 then i + int n else i)
      in if j < 0 then 0 else if int n < j then n else nat j)"

definition slice :: "'a list \<Rightarrow> int \<Rightarrow> int \<Rightarrow> 'a list" where
  "slice xs a b =
     (let lo = slice_index (length xs) a; hi = slice_index (length xs) b
      in take (hi - lo) (drop lo xs))"

text \<open>
  \<^verbatim>\<open>xs[i] = v\<close>: a negative index counts from the end; an index outside the list
  raises IndexError.
\<close>

definition setitem :: "'a list \<Rightarrow> int \<Rightarrow> 'a \<Rightarrow> error + 'a list" where
  "setitem xs i v =
     (let n = int (length xs); j = (if i < 0 then i + n else i)
      in if 0 \<le> j \<and> j < n then Inr (xs[nat j := v])
         else Inl (IndexError ''list assignment index out of range''))"

text \<open>\<^verbatim>\<open>for i in range(a, b): xs[i] = v\<close>, stopping at the first IndexError.\<close>

fun setitems :: "'a list \<Rightarrow> int list \<Rightarrow> 'a \<Rightarrow> error + 'a list" where
  "setitems xs [] v = Inr xs"
| "setitems xs (i # is) v =
     (case setitem xs i v of Inl e \<Rightarrow> Inl e | Inr xs' \<Rightarrow> setitems xs' is v)"

subsection \<open>The tokenizer shlex.split\<close>

text \<open>
  \<^verbatim>\<open>shlex.split(s)\<close> builds a lexer in POSIX mode with \<^verbatim>\<open>whitespace_split = True\<close>,
  no comment characters and no punctuation characters, and collects its tokens until
  the lexer returns \<^verbatim>\<open>None\<close>. The lexer's attribute \<^verbatim>\<open>state\<close> is \<^verbatim>\<open>None\<close> after
  the end of the input, \<^verbatim>\<open>' '\<close> between tokens, \<^verbatim>\<open>'a'\<close> inside a word, one of the two
  quote characters inside a quoted span, and the backslash after an escape character.
\<close>

datatype lexstate = AtEof | Blank | InWord | InQuote char | InEscape

definition whitespace :: string where
  "whitespace = [CHR '' '', CHR 0x09, CHR 0x0D, CHR 0x0A]"

definition quotes :: string where
  "quotes = [squote, dquote]"

definition escape :: string where
  "escape = [backslash]"

definition escapedquotes :: string where
  "escapedquotes = [dquote]"

text \<open>
  The end of \<^verbatim>\<open>read_token\<close>: the token is returned, unless it is empty and no quote
  was seen, which is \<^verbatim>\<open>None\<close>. The lexer's new state and the unread input come with it.
\<close>

definition emit :: "string \<Rightarrow> bool \<Rightarrow> lexstate \<Rightarrow> string
    \<Rightarrow> error + (string option \<times> lexstate \<times> string)" where
  "emit token quoted state rest =
     Inr (if \<not> quoted \<and> token = [] then None else Some token, state, rest)"

text \<open>
  \<^verbatim>\<open>read_token\<close>: one iteration of its loop reads one character (nothing at the end of
  the input) and branches on the state. The arguments are the attributes
  \<^verbatim>\<open>state\<close> and \<^verbatim>\<open>token\<close>, the locals \<^verbatim>\<open>quoted\<close> and \<^verbatim>\<open>escapedstate\<close>, and the
  unread input. In the states \<^verbatim>\<open>' '\<close> and \<^verbatim>\<open>'a'\<close> the branches for word characters
  and for \<^verbatim>\<open>whitespace_split\<close> do the same, and are one branch here.
\<close>

fun read_token :: "lexstate \<Rightarrow> string \<Rightarrow> bool \<Rightarrow> lexstate \<Rightarrow> string
    \<Rightarrow> error + (string option \<times> lexstate \<times> string)" where
  "read_token AtEof token quoted escapedstate inp = emit [] quoted AtEof (tl inp)"
| "read_token Blank token quoted escapedstate [] = emit token quoted AtEof []"
| "read_token Blank token quoted escapedstate (c # cs) =
     (if c \<in> set whitespace then
        (if token \<noteq> [] \<or> quoted then emit token quoted Blank cs
         else read_token Blank token quoted escapedstate cs)
      else if c \<in> set escape then read_token InEscape token quoted InWord cs
      else if c \<in> set quotes then read_token (InQuote c) token quoted escapedstate cs
      else read_token InWord [c] quoted escapedstate cs)"
| "read_token (InQuote q) token quoted escapedstate [] =
     Inl (ValueError ''No closing quotation'')"
| "read_token (InQuote q) token quoted escapedstate (c # cs) =
     (if c = q then read_token InWord token True escapedstate cs
      else if c \<in> set escape \<and> q \<in> set escapedquotes
        then read_token InEscape token True (InQuote q) cs
      else read_token (InQuote q) (token @ [c]) True escapedstate cs)"
| "read_token InEscape token quoted escapedstate [] =
     Inl (ValueError ''No escaped character'')"
| "read_token InEscape token quoted escapedstate (c # cs) =
     (let token' =
        (case escapedstate of
           InQuote q \<Rightarrow> if c \<noteq> backslash \<and> c \<noteq> q then token @ [backslash] else token
         | _ \<Rightarrow> token)
      in read_token escapedstate (token' @ [c]) quoted escapedstate cs)"
| "read_token InWord token quoted escapedstate [] = emit token quoted AtEof []"
| "read_token InWord token quoted escapedstate (c # cs) =
     (if c \<in> set whitespace then
        (if token \<noteq> [] \<or> quoted then emit token quoted Blank cs
         else read_token Blank token quoted escapedstate cs)
      else if c \<in> set quotes then read_token (InQuote c) token quoted escapedstate cs
      else if c \<in> set escape then read_token InEscape token quoted InWord cs
      else read_token InWord (token @ [c]) quoted escapedstate cs)"

lemma read_token_consumes:
  "read_token state token quoted escapedstate inp = Inr (r, state', rest)
    \<Longrightarrow> state \<noteq> AtEof
    \<Longrightarrow> length rest + (if state' = AtEof then 0 else 1) < length inp + 1"
  by (induction state token quoted escapedstate inp rule: read_token.induct)
     (auto simp: emit_def Let_def split: if_splits lexstate.splits)

lemma read_token_measure:
  assumes "read_token state [] False Blank inp = Inr (Some t, state', rest)"
  shows "length rest + (if state' = AtEof then 0 else 1)
    < length inp + (if state = AtEof then 0 else 1)"
proof (cases "state = AtEof")
  case True
  with assms show ?thesis by (simp add: emit_def)
next
  case False
  with read_token_consumes [OF assms] show ?thesis by simp
qed

text \<open>
  \<^verbatim>\<open>list(lex)\<close>: tokens are read, each with an empty \<^verbatim>\<open>token\<close> attribute and fresh
  locals, until \<^verbatim>\<open>read_token\<close> returns \<^verbatim>\<open>None\<close>.
\<close>

function tokens :: "lexstate \<Rightarrow> string \<Rightarrow> error + string list" where
  "tokens state inp =
     (case read_token state [] False Blank inp of
        Inl e \<Rightarrow> Inl e
      | Inr (None, state', rest) \<Rightarrow> Inr []
      | Inr (Some t, state', rest) \<Rightarrow>
          (case tokens state' rest of Inl e \<Rightarrow> Inl e | Inr ts \<Rightarrow> Inr (t # ts)))"
  by pat_completeness auto
termination
  by (relation "measure (\<lambda>(state, inp). length inp + (if state = AtEof then 0 else 1))")
     (auto simp del: read_token.simps dest!: read_token_measure split: if_splits)

declare tokens.simps [simp del]

definition shlex_split :: "string \<Rightarrow> error + string list" where
  "shlex_split s = tokens Blank s"

subsection \<open>Syntax trees of the parser\<close>

text \<open>
  A node of \<^verbatim>\<open>bashlex.ast\<close> has a \<^verbatim>\<open>kind\<close>, a span \<^verbatim>\<open>pos\<close> into the input and the
  attributes of its kind: a word and a command have \<^verbatim>\<open>parts\<close>, a command substitution
  its \<^verbatim>\<open>command\<close>, a parameter its name \<^verbatim>\<open>value\<close>, an operator its symbol \<^verbatim>\<open>op\<close>.
  Every other kind (\<^verbatim>\<open>list\<close>, \<^verbatim>\<open>pipeline\<close>, \<^verbatim>\<open>redirect\<close>, \<^verbatim>\<open>assignment\<close>, ...) is an
  \<open>OtherNode\<close> when the node has \<^verbatim>\<open>parts\<close> and an \<open>OtherLeaf\<close> when it has none; their
  first argument is a kind other than the five above.
\<close>

datatype node =
    WordNode "int \<times> int" "node list"
  | CommandsubstitutionNode "int \<times> int" node
  | ParameterNode "int \<times> int" string
  | CommandNode "int \<times> int" "node list"
  | OperatorNode "int \<times> int" string
  | OtherNode string "int \<times> int" "node list"
  | OtherLeaf string "int \<times> int"

fun kind :: "node \<Rightarrow> string" where
  "kind (WordNode p ps) = ''word''"
| "kind (CommandsubstitutionNode p c) = ''commandsubstitution''"
| "kind (ParameterNode p v) = ''parameter''"
| "kind (CommandNode p ps) = ''command''"
| "kind (OperatorNode p s) = ''operator''"
| "kind (OtherNode k p ps) = k"
| "kind (OtherLeaf k p) = k"

fun pos :: "node \<Rightarrow> int \<times> int" where
  "pos (WordNode p ps) = p"
| "pos (CommandsubstitutionNode p c) = p"
| "pos (ParameterNode p v) = p"
| "pos (CommandNode p ps) = p"
| "pos (OperatorNode p s) = p"
| "pos (OtherNode k p ps) = p"
| "pos (OtherLeaf k p) = p"

text \<open>\<^verbatim>\<open>node.parts\<close>, an AttributeError on a node that has no such attribute.\<close>

fun parts :: "node \<Rightarrow> error + node list" where
  "parts (WordNode p ps) = Inr ps"
| "parts (CommandNode p ps) = Inr ps"
| "parts (OtherNode k p ps) = Inr ps"
| "parts n = Inl (AttributeError ''parts'')"

subsection \<open>Environment, executor and context\<close>

text \<open>
  The environment is a Python dictionary that the caller owns; the evaluator and the
  executor hold references to the same object. Its content is therefore part of the
  state that evaluation threads through: a pair of the dictionary and of \<open>'w\<close>, which
  stands for everything else an executor may read or change (processes, files, a log
  of its calls). An executor takes the command line and the state, and returns its
  output or the exception it raises, with the state it leaves behind.
\<close>

type_synonym environment = "string \<rightharpoonup> string"

type_synonym 'w state = "environment \<times> 'w"

type_synonym 'w EnvironmentExecutor =
  "string \<Rightarrow> 'w state \<Rightarrow> (error + string) \<times> 'w state"

text \<open>
  \<^verbatim>\<open>NodeExecutionContext\<close>: its field \<^verbatim>\<open>environment\<close> is the reference to the
  dictionary in the state, so the record keeps the two other fields.
\<close>

record 'w NodeExecutionContext =
  input :: string
  executor :: "'w EnvironmentExecutor"

subsection \<open>The evaluator\<close>

text \<open>\<^verbatim>\<open>context.environment.get(node.value, '')\<close>.\<close>

fun evaluate_parameter_node :: "node \<Rightarrow> 'w NodeExecutionContext \<Rightarrow> 'w state
    \<Rightarrow> (error + string) \<times> 'w state" where
  "evaluate_parameter_node (ParameterNode p v) context st =
     (Inr (case fst st v of None \<Rightarrow> [] | Some x \<Rightarrow> x), st)"
| "evaluate_parameter_node n context st = (Inl (AttributeError ''value''), st)"

text \<open>
  The evaluators call each other. Next to the source's functions there are their
  three loops: \<open>word_parts\<close> is the loop of \<^verbatim>\<open>evaluate_word_node\<close> over the parts of
  the word, with the list \<^verbatim>\<open>letters\<close>; \<open>compound_parts\<close> is the loop of
  \<^verbatim>\<open>evaluate_nodes_as_compound_command\<close>, with the accumulator \<^verbatim>\<open>result\<close>;
  \<open>simple_words\<close> is the list comprehension of \<^verbatim>\<open>evaluate_nodes_as_simple_command\<close>.
  An exception ends each of them at once and leaves the state as it is at that moment.
  The dispatch on \<^verbatim>\<open>node.kind\<close> in \<^verbatim>\<open>evaluate_node\<close> is the case distinction on the
  constructor.
\<close>

text \<open>
  The recursion of the evaluators ends: every call is on a part of the node, or on the
  same node by a function that then recurses on its parts.
\<close>

lemma size_parts: "parts node = Inr ps \<Longrightarrow> size_list size ps < size node"
  by (cases node) auto

function (sequential) evaluate_node :: "node \<Rightarrow> 'w NodeExecutionContext \<Rightarrow> 'w state
    \<Rightarrow> (error + string) \<times> 'w state"
  and evaluate_word_node :: "node \<Rightarrow> 'w NodeExecutionContext \<Rightarrow> 'w state
    \<Rightarrow> (error + string) \<times> 'w state"
  and word_parts :: "node list \<Rightarrow> int \<Rightarrow> string list \<Rightarrow> 'w NodeExecutionContext
    \<Rightarrow> 'w state \<Rightarrow> (error + string list) \<times> 'w state"
  and evaluate_command_node :: "node \<Rightarrow> 'w NodeExecutionContext \<Rightarrow> 'w state
    \<Rightarrow> (error + string) \<times> 'w state"
  and evaluate_nodes_as_compound_command :: "node list \<Rightarrow> 'w NodeExecutionContext
    \<Rightarrow> 'w state \<Rightarrow> (error + string) \<times> 'w state"
  and compound_parts :: "node list \<Rightarrow> string \<Rightarrow> 'w NodeExecutionContext \<Rightarrow> 'w state
    \<Rightarrow> (error + string) \<times> 'w state"
  and evaluate_nodes_as_simple_command :: "node list \<Rightarrow> 'w NodeExecutionContext
    \<Rightarrow> 'w state \<Rightarrow> (error + string) \<times> 'w state"
  and simple_words :: "node list \<Rightarrow> 'w NodeExecutionContext \<Rightarrow> 'w state
    \<Rightarrow> (error + string list) \<times> 'w state"
where
  "evaluate_node node context st =
     (case node of
        WordNode p ps \<Rightarrow> evaluate_word_node node context st
      | CommandsubstitutionNode p command \<Rightarrow> evaluate_command_node command context st
      | ParameterNode p v \<Rightarrow> evaluate_parameter_node node context st
      | _ \<Rightarrow> (Inl (ValueError (''Unsupported bash construct: ''
                 @ [dquote] @ kind node @ [dquote])), st))"

| "evaluate_word_node node context st =
     (case node of
        WordNode p ps \<Rightarrow>
          (let word_start = fst p;
               word_end = snd p;
               word_string = slice (input context) word_start word_end;
               letters = map (\<lambda>c. [c]) word_string
           in case word_parts ps word_start letters context st of
                (Inl e, st') \<Rightarrow> (Inl e, st')
              | (Inr letters', st') \<Rightarrow>
                  (let value = concat letters'
                   in case shlex_split value of
                        Inl e \<Rightarrow> (Inl e, st')
                      | Inr ws \<Rightarrow> (Inr (join '' '' (map strip ws)), st')))
      | _ \<Rightarrow> (Inl (AttributeError ''parts''), st))"

| "word_parts [] word_start letters context st = (Inr letters, st)"
| "word_parts (part # rest) word_start letters context st =
     (let part_start = fst (pos part) - word_start;
          part_end = snd (pos part) - word_start
      in case setitems letters [part_start..part_end - 1] [] of
           Inl e \<Rightarrow> (Inl e, st)
         | Inr blanked \<Rightarrow>
             (case evaluate_node part context st of
                (Inl e, st') \<Rightarrow> (Inl e, st')
              | (Inr v, st') \<Rightarrow>
                  (case setitem blanked part_start v of
                     Inl e \<Rightarrow> (Inl e, st')
                   | Inr letters' \<Rightarrow> word_parts rest word_start letters' context st')))"

| "evaluate_command_node node context st =
     (case parts node of
        Inl e \<Rightarrow> (Inl e, st)
      | Inr ps \<Rightarrow>
          if list_ex (\<lambda>n. kind n = ''operator'') ps
          then evaluate_nodes_as_compound_command ps context st
          else evaluate_nodes_as_simple_command ps context st)"

| "evaluate_nodes_as_compound_command nodes context st =
     compound_parts nodes [] context st"

| "compound_parts [] result context st = (Inr result, st)"
| "compound_parts (node # rest) result context st =
     (if kind node = ''command'' then
        (case evaluate_command_node node context st of
           (Inl e, st') \<Rightarrow> (Inl e, st')
         | (Inr r, st') \<Rightarrow> compound_parts rest (result @ r) context st')
      else if kind node = ''operator'' then
        (case node of
           OperatorNode p op \<Rightarrow>
             if op = '';'' then compound_parts rest result context st
             else (Inl (ValueError (''Unsupported bash operator: ''
                     @ [dquote] @ op @ [dquote])), st)
         | _ \<Rightarrow> (Inl (AttributeError ''op''), st))
      else (Inl (ValueError (''Unsupported bash node in compound command: ''
              @ [dquote] @ kind node @ [dquote])), st))"

| "evaluate_nodes_as_simple_command nodes context st =
     (case simple_words nodes context st of
        (Inl e, st') \<Rightarrow> (Inl e, st')
      | (Inr words, st') \<Rightarrow> executor context (join '' '' words) st')"

| "simple_words [] context st = (Inr [], st)"
| "simple_words (part # rest) context st =
     (case evaluate_node part context st of
        (Inl e, st') \<Rightarrow> (Inl e, st')
      | (Inr w, st') \<Rightarrow>
          (case simple_words rest context st' of
             (Inl e, st'') \<Rightarrow> (Inl e, st'')
           | (Inr ws, st'') \<Rightarrow> (Inr (w # ws), st'')))"
  by pat_completeness auto

termination
  by (relation "measure
        (case_sum
          (case_sum
            (case_sum (\<lambda>(n, c, s). 2 * size n + 1) (\<lambda>(n, c, s). 2 * size n))
            (case_sum (\<lambda>(ps, ws, l, c, s). 2 * size_list size ps)
                      (\<lambda>(n, c, s). 2 * size n)))
          (case_sum
            (case_sum (\<lambda>(ps, c, s). 2 * size_list size ps + 1)
                      (\<lambda>(ps, r, c, s). 2 * size_list size ps))
            (case_sum (\<lambda>(ps, c, s). 2 * size_list size ps + 1)
                      (\<lambda>(ps, c, s). 2 * size_list size ps))))")
     (auto dest: size_parts)

declare evaluate_node.simps [simp del] evaluate_word_node.simps [simp del]
  evaluate_command_node.simps [simp del]

text \<open>
  The entry point. The parser \<^verbatim>\<open>bashlex.parsesingle\<close> and the default executor
  \<^verbatim>\<open>local_environment_executor\<close> (which spawns a process) are its first two
  arguments; the argument \<open>executor'\<close> is the source's optional \<^verbatim>\<open>executor\<close>, \<open>None\<close>
  when the caller leaves it out.
\<close>

definition evaluate :: "(string \<Rightarrow> error + node) \<Rightarrow> 'w EnvironmentExecutor \<Rightarrow> string
    \<Rightarrow> environment \<Rightarrow> 'w EnvironmentExecutor option \<Rightarrow> 'w
    \<Rightarrow> (error + string) \<times> 'w state" where
  "evaluate parsesingle local_environment_executor value environment executor' w =
     (if value = [] then (Inr [], (environment, w))
      else case parsesingle value of
             Inl e \<Rightarrow> (Inl e, (environment, w))
           | Inr command_node \<Rightarrow>
               (case parts command_node of
                  Inl e \<Rightarrow> (Inl e, (environment, w))
                | Inr ps \<Rightarrow>
                    if length ps \<noteq> 1
                    then (Inl (ValueError ([dquote] @ value @ [dquote]
                            @ '' has too many parts'')), (environment, w))
                    else evaluate_node (hd ps)
                           \<lparr>input = value,
                            executor = (case executor' of
                                          None \<Rightarrow> local_environment_executor
                                        | Some ex \<Rightarrow> ex)\<rparr>
                           (environment, w)))"

subsection \<open>The word evaluator, in the words of the specification\<close>



text \<open>
  Whitespace collapsing, as the specification describes it: runs of whitespace become
  one space and the edges are trimmed. \<open>fields\<close> are the maximal runs of characters
  that are not whitespace, read from left to right with the current run in \<open>token\<close>;
  \<open>unwords\<close> puts one space between them. Whitespace is every character that Python
  counts as such (\<open>isspace\<close>).
\<close>

fun fields_from :: "string \<Rightarrow> string \<Rightarrow> string list" where
  "fields_from token [] = (if token = [] then [] else [token])"
| "fields_from token (c # cs) =
     (if isspace c
      then (if token = [] then fields_from [] cs else token # fields_from [] cs)
      else fields_from (token @ [c]) cs)"

definition fields :: "string \<Rightarrow> string list" where
  "fields s = fields_from [] s"

fun unwords :: "string list \<Rightarrow> string" where
  "unwords [] = []"
| "unwords [w] = w"
| "unwords (w # v # ws) = w @ CHR '' '' # unwords (v # ws)"

definition collapse_whitespace :: "string \<Rightarrow> string" where
  "collapse_whitespace s = unwords (fields s)"

subsection \<open>The simple command, in the words of the specification\<close>

text \<open>
  The command line of a simple command, as the specification describes it: every part
  is evaluated by the node evaluator, from left to right, and the strings are put
  together with a single space between two of them. \<open>line\<close> is the command line built
  from the parts so far, \<open>None\<close> before the first part.
\<close>

fun command_line :: "node list \<Rightarrow> string option \<Rightarrow> 'w NodeExecutionContext \<Rightarrow> 'w state
    \<Rightarrow> (error + string) \<times> 'w state" where
  "command_line [] line ctx st = (Inr (case line of None \<Rightarrow> [] | Some l \<Rightarrow> l), st)"
| "command_line (part # rest) line ctx st =
     (case evaluate_node part ctx st of
        (Inl e, st') \<Rightarrow> (Inl e, st')
      | (Inr word, st') \<Rightarrow>
          command_line rest
            (Some (case line of None \<Rightarrow> word | Some l \<Rightarrow> l @ CHR '' '' # word)) ctx st')"

subsection \<open>Following the tokenizer through a text\<close>

text \<open>
  What the tokenizer makes of a text without quote and escape characters: the maximal
  runs of characters other than its four separators, read from left to right with the
  current run in \<open>token\<close>. A character that Python counts as whitespace and that is not
  one of the four (a vertical tab, a form feed, ...) does not separate tokens; it is
  only stripped from the ends of a token.
\<close>

fun runs_from :: "string \<Rightarrow> string \<Rightarrow> string list" where
  "runs_from token [] = (if token = [] then [] else [token])"
| "runs_from token (c # cs) =
     (if c \<in> set whitespace
      then (if token = [] then runs_from [] cs else token # runs_from [] cs)
      else runs_from (token @ [c]) cs)"




section \<open>Properties\<close>

subsection \<open>The tokenizer on text without quotes and escapes\<close>










lemma runs_from_no_whitespace:
  "set s \<inter> set whitespace = {} \<Longrightarrow> token @ s \<noteq> [] \<Longrightarrow> runs_from token s = [token @ s]"
  by (induction s arbitrary: token) auto





subsection \<open>The evaluators, constructor by constructor\<close>


lemma evaluate_node_CommandsubstitutionNode:
  "evaluate_node (CommandsubstitutionNode p command) ctx st =
     evaluate_command_node command ctx st"
  by (simp add: evaluate_node.simps)

lemma evaluate_command_node_parts:
  "parts node = Inr ps \<Longrightarrow>
   evaluate_command_node node ctx st =
     (if list_ex (\<lambda>n. kind n = ''operator'') ps
      then evaluate_nodes_as_compound_command ps ctx st
      else evaluate_nodes_as_simple_command ps ctx st)"
  by (simp add: evaluate_command_node.simps)



text \<open>The rules that run the evaluator on a concrete tree.\<close>

lemmas run = evaluate_def evaluate_node.simps evaluate_word_node.simps
  evaluate_command_node.simps Let_def slice_def slice_index_def setitem_def upto.simps
  shlex_split_def tokens.simps emit_def whitespace_def quotes_def escape_def
  escapedquotes_def strip_def isspace_def collapse_whitespace_def fields_def

subsection \<open>The accumulator of a compound command\<close>

lemma compound_parts_result:
  "compound_parts nodes result ctx st =
     (case compound_parts nodes [] ctx st of
        (Inl e, st') \<Rightarrow> (Inl e, st')
      | (Inr r, st') \<Rightarrow> (Inr (result @ r), st'))"
proof (induction nodes arbitrary: result st)
  case Nil
  show ?case by simp
next
  case (Cons node nodes)
  show ?case
  proof (cases "kind node = ''command''")
    case True
    show ?thesis
    proof -
      obtain res st' where Pair: "evaluate_command_node node ctx st = (res, st')"
        by (cases "evaluate_command_node node ctx st")
      show ?thesis
      proof (cases res)
        case (Inl e)
        with True Pair show ?thesis by simp
      next
        case (Inr r)
        with True Pair Cons.IH [of "result @ r" st'] Cons.IH [of r st'] show ?thesis
          by (simp split: prod.splits sum.splits)
      qed
    qed
  next
    case False
    with Cons.IH [of result st] show ?thesis
      by (simp split: node.splits)
  qed
qed

lemma compound_parts_append:
  "compound_parts (pre @ post) result ctx st =
     (case compound_parts pre result ctx st of
        (Inl e, st') \<Rightarrow> (Inl e, st')
      | (Inr r, st') \<Rightarrow> compound_parts post r ctx st')"
  by (induction pre arbitrary: result st) (auto split: prod.splits sum.splits node.splits)

subsection \<open>The evaluator does not write to the environment\<close>

text \<open>
  When the executor leaves the dictionary as it found it, so does each of the eight
  functions: by induction along their calls.
\<close>

lemma frame_all:
  "(\<forall>cmd s. fst (snd (executor ctx cmd s)) = fst s)
     \<Longrightarrow> fst (snd (evaluate_node node ctx st)) = fst st"
  "(\<forall>cmd s. fst (snd (executor ctx cmd s)) = fst s)
     \<Longrightarrow> fst (snd (evaluate_word_node n2 ctx st)) = fst st"
  "(\<forall>cmd s. fst (snd (executor ctx cmd s)) = fst s)
     \<Longrightarrow> fst (snd (word_parts ps word_start letters ctx st)) = fst st"
  "(\<forall>cmd s. fst (snd (executor ctx cmd s)) = fst s)
     \<Longrightarrow> fst (snd (evaluate_command_node n3 ctx st)) = fst st"
  "(\<forall>cmd s. fst (snd (executor ctx cmd s)) = fst s)
     \<Longrightarrow> fst (snd (evaluate_nodes_as_compound_command nodes ctx st)) = fst st"
  "(\<forall>cmd s. fst (snd (executor ctx cmd s)) = fst s)
     \<Longrightarrow> fst (snd (compound_parts ns2 result ctx st)) = fst st"
  "(\<forall>cmd s. fst (snd (executor ctx cmd s)) = fst s)
     \<Longrightarrow> fst (snd (evaluate_nodes_as_simple_command ns3 ctx st)) = fst st"
  "(\<forall>cmd s. fst (snd (executor ctx cmd s)) = fst s)
     \<Longrightarrow> fst (snd (simple_words ns4 ctx st)) = fst st"
proof (induction node ctx st and n2 ctx st and ps word_start letters ctx st
    and n3 ctx st and nodes ctx st and ns2 result ctx st
    and ns3 ctx st and ns4 ctx st
    rule: evaluate_node_evaluate_word_node_word_parts_evaluate_command_node_evaluate_nodes_as_compound_command_compound_parts_evaluate_nodes_as_simple_command_simple_words.induct)
  case (1 node ctx st)
  then show ?case
    by (cases node) (simp_all add: evaluate_node.simps)
next
  case (2 node ctx st)
  show ?case
  proof (cases node)
    case (WordNode p ps)
    from "2.IH" [OF WordNode refl refl refl refl "2.prems"] WordNode show ?thesis
      by (auto simp: evaluate_word_node.simps Let_def split: prod.splits sum.splits)
  qed (simp_all add: evaluate_word_node.simps)
next
  case (3 word_start letters ctx st)
  show ?case by simp
next
  case (4 part rest word_start letters ctx st)
  then show ?case
    by (auto simp: Let_def split: prod.splits sum.splits; metis fst_conv snd_conv)
next
  case (5 node ctx st)
  then show ?case
    by (auto simp: evaluate_command_node.simps split: sum.splits)
next
  case (6 nodes ctx st)
  then show ?case by simp
next
  case (7 result ctx st)
  show ?case by simp
next
  case (8 node rest result ctx st)
  then show ?case
    by (auto split: prod.splits sum.splits node.splits; metis fst_conv snd_conv)
next
  case (9 nodes ctx st)
  then show ?case
    by (auto split: prod.splits sum.splits; metis fst_conv snd_conv)
next
  case (10 ctx st)
  show ?case by simp
next
  case (11 part rest ctx st)
  then show ?case
    by (auto split: prod.splits sum.splits; metis fst_conv snd_conv)
qed


subsection \<open>The letters of a word and its raw substituted value\<close>






subsection \<open>Tokenizing, stripping and joining collapse whitespace\<close>







subsection \<open>The command line of a simple command\<close>

lemma join_snoc_line:
  "join '' '' ((l @ CHR '' '' # word) # ws) = l @ CHR '' '' # join '' '' (word # ws)"
  by (cases ws) simp_all

lemma simple_words_command_line:
  "(case simple_words nodes ctx st of
      (Inl e, st') \<Rightarrow> (Inl e, st')
    | (Inr ws, st') \<Rightarrow>
        (Inr (case line of None \<Rightarrow> join '' '' ws | Some l \<Rightarrow> join '' '' (l # ws)), st')) =
   command_line nodes line ctx st"
proof (induction nodes arbitrary: line st)
  case Nil
  show ?case by (simp split: option.splits)
next
  case (Cons part rest)
  obtain res st' where part: "evaluate_node part ctx st = (res, st')"
    by (cases "evaluate_node part ctx st")
  show ?case
  proof (cases res)
    case (Inl e)
    with part show ?thesis by simp
  next
    case (Inr word)
    show ?thesis
    proof (cases line)
      case None
      with part Inr Cons.IH [of "Some word" st', symmetric] show ?thesis
        by (simp split: prod.splits sum.splits)
    next
      case (Some l)
      with part Inr Cons.IH [of "Some (l @ CHR '' '' # word)" st', symmetric] show ?thesis
        by (simp add: join_snoc_line split: prod.splits sum.splits)
    qed
  qed
qed

lemma simple_command_command_line:
  "evaluate_nodes_as_simple_command nodes ctx st =
     (case command_line nodes None ctx st of
        (Inl e, st') \<Rightarrow> (Inl e, st')
      | (Inr line, st') \<Rightarrow> executor ctx line st')"
  using simple_words_command_line [where nodes = nodes and ctx = ctx and st = st
      and line = None, symmetric]
  by (simp split: prod.splits sum.splits)

section \<open>The claims\<close>

subsection \<open>The empty input\<close>

text \<open>
  Claim C8. For every environment and every executor, evaluating the empty string
  returns the empty string at once: the result does not depend on the parser, which
  is not consulted, and the state is the one the call started in.
\<close>

theorem evaluate_empty_string:
  "evaluate parsesingle d [] environment ex' w = (Inr [], (environment, w))"
  by (simp add: evaluate_def)

subsection \<open>Parameters\<close>

text \<open>
  Claim C6. The parameter evaluator looks the variable's name up in the environment
  and returns its value when there is one and the empty string otherwise; it never
  fails and leaves the state alone. In particular, when the parser returns for
  \<^verbatim>\<open>$FOO\<close> and \<^verbatim>\<open>$MISSING\<close> the trees that bashlex builds (a word that is one
  parameter), \<^verbatim>\<open>$FOO\<close> evaluates to \<^verbatim>\<open>bar\<close> in the environment that maps FOO to bar, and
  \<^verbatim>\<open>$MISSING\<close> to the empty string in the empty environment.
\<close>

theorem parameter_lookup:
  assumes "parsesingle ''$FOO'' =
      Inr (CommandNode (0, 4) [WordNode (0, 4) [ParameterNode (0, 4) ''FOO'']])"
    and "parsesingle ''$MISSING'' =
      Inr (CommandNode (0, 8) [WordNode (0, 8) [ParameterNode (0, 8) ''MISSING'']])"
  shows "evaluate_parameter_node (ParameterNode p name) ctx (environment, w) =
        (Inr (case environment name of None \<Rightarrow> [] | Some x \<Rightarrow> x), (environment, w))
    \<and> evaluate parsesingle d ''$FOO'' [''FOO'' \<mapsto> ''bar''] ex' w =
        (Inr ''bar'', ([''FOO'' \<mapsto> ''bar''], w))
    \<and> evaluate parsesingle d ''$MISSING'' Map.empty ex' w = (Inr [], (Map.empty, w))"
proof (intro conjI)
  show "evaluate_parameter_node (ParameterNode p name) ctx (environment, w) =
      (Inr (case environment name of None \<Rightarrow> [] | Some x \<Rightarrow> x), (environment, w))"
    by simp
next
  show "evaluate parsesingle d ''$FOO'' [''FOO'' \<mapsto> ''bar''] ex' w =
      (Inr ''bar'', ([''FOO'' \<mapsto> ''bar''], w))"
    using assms(1) by (simp add: run)
next
  show "evaluate parsesingle d ''$MISSING'' Map.empty ex' w = (Inr [], (Map.empty, w))"
    using assms(2) by (simp add: run)
qed

theorem parameter_lookup_witness:
  "(\<lambda>v. if v = ''$FOO''
        then Inr (CommandNode (0, 4) [WordNode (0, 4) [ParameterNode (0, 4) ''FOO'']])
        else Inr (CommandNode (0, 8) [WordNode (0, 8) [ParameterNode (0, 8) ''MISSING'']]))
     ''$FOO'' = Inr (CommandNode (0, 4) [WordNode (0, 4) [ParameterNode (0, 4) ''FOO'']])
   \<and> (\<lambda>v. if v = ''$FOO''
        then Inr (CommandNode (0, 4) [WordNode (0, 4) [ParameterNode (0, 4) ''FOO'']])
        else Inr (CommandNode (0, 8) [WordNode (0, 8) [ParameterNode (0, 8) ''MISSING'']]))
     ''$MISSING'' =
       Inr (CommandNode (0, 8) [WordNode (0, 8) [ParameterNode (0, 8) ''MISSING'']])
   \<and> evaluate
        (\<lambda>v. if v = ''$FOO''
          then Inr (CommandNode (0, 4) [WordNode (0, 4) [ParameterNode (0, 4) ''FOO'']])
          else Inr (CommandNode (0, 8) [WordNode (0, 8) [ParameterNode (0, 8) ''MISSING'']]))
        (\<lambda>cmd s. (Inr cmd, s)) ''$FOO'' [''FOO'' \<mapsto> ''bar''] None () =
       (Inr ''bar'', ([''FOO'' \<mapsto> ''bar''], ()))
   \<and> evaluate
        (\<lambda>v. if v = ''$FOO''
          then Inr (CommandNode (0, 4) [WordNode (0, 4) [ParameterNode (0, 4) ''FOO'']])
          else Inr (CommandNode (0, 8) [WordNode (0, 8) [ParameterNode (0, 8) ''MISSING'']]))
        (\<lambda>cmd s. (Inr cmd, s)) ''$MISSING'' Map.empty None () = (Inr [], (Map.empty, ()))"
proof -
  let ?parse = "\<lambda>v. if v = ''$FOO''
        then Inr (CommandNode (0, 4) [WordNode (0, 4) [ParameterNode (0, 4) ''FOO'']])
        else Inr (CommandNode (0, 8) [WordNode (0, 8) [ParameterNode (0, 8) ''MISSING'']])"
  have a: "?parse ''$FOO'' =
      Inr (CommandNode (0, 4) [WordNode (0, 4) [ParameterNode (0, 4) ''FOO'']])"
    by simp
  have b: "?parse ''$MISSING'' =
      Inr (CommandNode (0, 8) [WordNode (0, 8) [ParameterNode (0, 8) ''MISSING'']])"
    by simp
  from parameter_lookup [where parsesingle = ?parse and d = "\<lambda>cmd s. (Inr cmd, s)"
      and ex' = None and w = "()", OF a b] a b
  show ?thesis by simp
qed

subsection \<open>More or fewer than one top-level part\<close>



text \<open>
  Claim C5 says this of every non-empty input. The code reads the \<^verbatim>\<open>parts\<close> of the
  tree before it counts them, and a tree without that attribute, as the compound
  command that bashlex returns for \<^verbatim>\<open>(a)\<close>, ends the evaluation with an
  AttributeError and not with the error that names the input.
\<close>

theorem top_level_node_without_parts:
  "evaluate (\<lambda>v. Inr (OtherLeaf ''compound'' (0, 3))) (\<lambda>cmd s. (Inr cmd, s))
     ''(a)'' Map.empty None () = (Inl (AttributeError ''parts''), (Map.empty, ()))"
  by (simp add: evaluate_def)

subsection \<open>Simple commands\<close>

text \<open>
  Claim C2. A simple command evaluates every part through the node evaluator, from
  left to right, and joins the strings with single spaces into one command line; it
  calls the executor of the context with that command line, in the state the parts
  left, which holds the environment; what the executor returns (its output or its
  exception, and its state) is the result of the command, and of a command
  substitution around it. An error of a part is the result, and the executor is not
  called. In particular, with an executor that returns \<^verbatim>\<open>X Y\<close> for every command, and
  the tree that bashlex builds for \<^verbatim>\<open>$(anything)\<close>, the input \<^verbatim>\<open>$(anything)\<close> evaluates
  to \<^verbatim>\<open>X Y\<close>; and the command \<^verbatim>\<open>echo $FOO\<close>, where \<^verbatim>\<open>FOO\<close> is \<^verbatim>\<open>bar\<close>, calls the
  executor once, with the command line \<^verbatim>\<open>echo bar\<close>.
\<close>

theorem simple_command_runs_executor:
  assumes "\<not> list_ex (\<lambda>n. kind n = ''operator'') nodes"
    and "\<forall>cmd s. ex cmd s = (Inr ''X Y'', s)"
    and "parsesingle ''$(anything)'' =
      Inr (CommandNode (0, 11) [WordNode (0, 11) [CommandsubstitutionNode (0, 11)
        (CommandNode (2, 10) [WordNode (2, 10) []])]])"
  shows "evaluate_nodes_as_simple_command nodes ctx st =
        (case command_line nodes None ctx st of
           (Inl e, st') \<Rightarrow> (Inl e, st')
         | (Inr line, st') \<Rightarrow> executor ctx line st')
    \<and> evaluate_node (CommandsubstitutionNode p (CommandNode q nodes)) ctx st =
        (case command_line nodes None ctx st of
           (Inl e, st') \<Rightarrow> (Inl e, st')
         | (Inr line, st') \<Rightarrow> executor ctx line st')
    \<and> evaluate parsesingle d ''$(anything)'' environment (Some ex) w =
        (Inr ''X Y'', (environment, w))
    \<and> evaluate_nodes_as_simple_command
        [WordNode (2, 6) [], WordNode (7, 11) [ParameterNode (7, 11) ''FOO'']]
        \<lparr>input = ''$(echo $FOO)'',
         executor = (\<lambda>cmd (e, n). (Inr (cmd @ ''!''), (e, Suc n)))\<rparr>
        ([''FOO'' \<mapsto> ''bar''], 0 :: nat) =
        (Inr ''echo bar!'', ([''FOO'' \<mapsto> ''bar''], 1))"
proof (intro conjI)
  show simple: "evaluate_nodes_as_simple_command nodes ctx st =
        (case command_line nodes None ctx st of
           (Inl e, st') \<Rightarrow> (Inl e, st')
         | (Inr line, st') \<Rightarrow> executor ctx line st')"
    by (rule simple_command_command_line)
  have "evaluate_node (CommandsubstitutionNode p (CommandNode q nodes)) ctx st =
      evaluate_nodes_as_simple_command nodes ctx st"
    using assms(1)
    by (simp add: evaluate_node_CommandsubstitutionNode evaluate_command_node_parts
        del: evaluate_nodes_as_simple_command.simps)
  then show "evaluate_node (CommandsubstitutionNode p (CommandNode q nodes)) ctx st =
        (case command_line nodes None ctx st of
           (Inl e, st') \<Rightarrow> (Inl e, st')
         | (Inr line, st') \<Rightarrow> executor ctx line st')"
    by (simp only: simple)
next
  show "evaluate parsesingle d ''$(anything)'' environment (Some ex) w =
      (Inr ''X Y'', (environment, w))"
    using assms(2,3) by (simp add: run)
next
  show "evaluate_nodes_as_simple_command
      [WordNode (2, 6) [], WordNode (7, 11) [ParameterNode (7, 11) ''FOO'']]
      \<lparr>input = ''$(echo $FOO)'',
       executor = (\<lambda>cmd (e, n). (Inr (cmd @ ''!''), (e, Suc n)))\<rparr>
      ([''FOO'' \<mapsto> ''bar''], 0 :: nat) =
      (Inr ''echo bar!'', ([''FOO'' \<mapsto> ''bar''], 1))"
    by (simp add: run)
qed

theorem simple_command_runs_executor_witness:
  "\<not> list_ex (\<lambda>n. kind n = ''operator'')
      [WordNode (2, 6) [], WordNode (7, 11) [ParameterNode (7, 11) ''FOO'']]
   \<and> (\<forall>cmd s. (\<lambda>cmd (s :: unit state). (Inr ''X Y'' :: error + string, s)) cmd s =
        (Inr ''X Y'', s))
   \<and> command_line [WordNode (2, 6) [], WordNode (7, 11) [ParameterNode (7, 11) ''FOO'']] None
        \<lparr>input = ''$(echo $FOO)'',
         executor = (\<lambda>cmd (e :: environment, n :: nat).
           (Inr (cmd @ ''!'') :: error + string, (e, Suc n)))\<rparr>
        ([''FOO'' \<mapsto> ''bar''], 0) = (Inr ''echo bar'', ([''FOO'' \<mapsto> ''bar''], 0))
   \<and> evaluate_node
        (CommandsubstitutionNode (0, 12)
          (CommandNode (2, 11)
            [WordNode (2, 6) [], WordNode (7, 11) [ParameterNode (7, 11) ''FOO'']]))
        \<lparr>input = ''$(echo $FOO)'',
         executor = (\<lambda>cmd (e :: environment, n :: nat).
           (Inr (cmd @ ''!'') :: error + string, (e, Suc n)))\<rparr>
        ([''FOO'' \<mapsto> ''bar''], 0) = (Inr ''echo bar!'', ([''FOO'' \<mapsto> ''bar''], 1))
   \<and> evaluate
        (\<lambda>v. Inr (CommandNode (0, 11) [WordNode (0, 11) [CommandsubstitutionNode (0, 11)
          (CommandNode (2, 10) [WordNode (2, 10) []])]]))
        (\<lambda>cmd s. (Inr cmd, s)) ''$(anything)'' Map.empty
        (Some (\<lambda>cmd (s :: unit state). (Inr ''X Y'' :: error + string, s))) () =
       (Inr ''X Y'', (Map.empty, ()))"
proof -
  let ?nodes = "[WordNode (2, 6) [], WordNode (7, 11) [ParameterNode (7, 11) ''FOO'']]"
  let ?ctx = "\<lparr>input = ''$(echo $FOO)'',
    executor = (\<lambda>cmd (e :: environment, n :: nat).
      (Inr (cmd @ ''!'') :: error + string, (e, Suc n)))\<rparr>"
  let ?st = "([''FOO'' \<mapsto> ''bar''], 0 :: nat)"
  let ?parse = "\<lambda>v :: string. (Inr (CommandNode (0, 11) [WordNode (0, 11)
    [CommandsubstitutionNode (0, 11) (CommandNode (2, 10) [WordNode (2, 10) []])]])
    :: error + node)"
  let ?ex = "\<lambda>cmd (s :: unit state). (Inr ''X Y'' :: error + string, s)"
  have a: "\<not> list_ex (\<lambda>n. kind n = ''operator'') ?nodes"
    by simp
  have b: "\<forall>cmd s. ?ex cmd s = (Inr ''X Y'', s)"
    by simp
  have c: "?parse ''$(anything)'' =
      Inr (CommandNode (0, 11) [WordNode (0, 11) [CommandsubstitutionNode (0, 11)
        (CommandNode (2, 10) [WordNode (2, 10) []])]])"
    by simp
  have line: "command_line ?nodes None ?ctx ?st = (Inr ''echo bar'', ?st)"
    by (simp add: run)
  note t = simple_command_runs_executor [OF a b, where parsesingle = ?parse, OF c]
  have sub: "evaluate_node (CommandsubstitutionNode (0, 12) (CommandNode (2, 11) ?nodes))
      ?ctx ?st = (Inr ''echo bar!'', ([''FOO'' \<mapsto> ''bar''], 1))"
    using t [where ctx = ?ctx and st = ?st and p = "(0, 12)" and q = "(2, 11)",
        THEN conjunct2, THEN conjunct1] line
    by simp
  have top: "evaluate ?parse (\<lambda>cmd s. (Inr cmd, s)) ''$(anything)'' Map.empty (Some ?ex) () =
      (Inr ''X Y'', (Map.empty, ()))"
    by (rule t [THEN conjunct2, THEN conjunct2, THEN conjunct1])
  show ?thesis
    by (intro conjI) (rule a, rule b, rule line, rule sub, rule top)
qed

subsection \<open>Compound commands\<close>

text \<open>
  Claim C3. A compound command walks its parts from left to right: the result of a
  command is put in front of the result of the parts after it, with nothing between
  them, and an error ends the walk; the operator \<^verbatim>\<open>;\<close> is skipped; the empty sequence
  gives the empty string. In particular, with an executor that returns its command
  line, and the tree that bashlex builds for \<^verbatim>\<open>$(echo a; echo b)\<close>, the input
  \<^verbatim>\<open>$(echo a; echo b)\<close> evaluates to \<^verbatim>\<open>echo aecho b\<close>: the two outputs in their order,
  with no separator.
\<close>

theorem compound_command_concatenates:
  assumes "\<forall>cmd s. ex cmd s = (Inr cmd, s)"
    and "parsesingle ''$(echo a; echo b)'' =
      Inr (CommandNode (0, 17) [WordNode (0, 17) [CommandsubstitutionNode (0, 17)
        (OtherNode ''list'' (2, 16)
          [CommandNode (2, 8) [WordNode (2, 6) [], WordNode (7, 8) []],
           OperatorNode (8, 9) '';'',
           CommandNode (10, 16) [WordNode (10, 14) [], WordNode (15, 16) []]])]])"
  shows "evaluate_nodes_as_compound_command [] ctx st = (Inr [], st)
    \<and> evaluate_nodes_as_compound_command (CommandNode p ps # rest) ctx st =
        (case evaluate_command_node (CommandNode p ps) ctx st of
           (Inl e, st') \<Rightarrow> (Inl e, st')
         | (Inr r, st') \<Rightarrow>
             (case evaluate_nodes_as_compound_command rest ctx st' of
                (Inl e, st'') \<Rightarrow> (Inl e, st'')
              | (Inr r', st'') \<Rightarrow> (Inr (r @ r'), st'')))
    \<and> evaluate_nodes_as_compound_command (OperatorNode q '';'' # rest) ctx st =
        evaluate_nodes_as_compound_command rest ctx st
    \<and> evaluate parsesingle d ''$(echo a; echo b)'' environment (Some ex) w =
        (Inr ''echo aecho b'', (environment, w))"
proof (intro conjI)
  show "evaluate_nodes_as_compound_command [] ctx st = (Inr [], st)"
    by simp
next
  show "evaluate_nodes_as_compound_command (CommandNode p ps # rest) ctx st =
        (case evaluate_command_node (CommandNode p ps) ctx st of
           (Inl e, st') \<Rightarrow> (Inl e, st')
         | (Inr r, st') \<Rightarrow>
             (case evaluate_nodes_as_compound_command rest ctx st' of
                (Inl e, st'') \<Rightarrow> (Inl e, st'')
              | (Inr r', st'') \<Rightarrow> (Inr (r @ r'), st'')))"
  proof -
    obtain res st1 where c: "evaluate_command_node (CommandNode p ps) ctx st = (res, st1)"
      by (cases "evaluate_command_node (CommandNode p ps) ctx st")
    show ?thesis
    proof (cases res)
      case (Inl e)
      with c show ?thesis by simp
    next
      case (Inr r)
      with c compound_parts_result [of rest r ctx st1] show ?thesis
        by (simp split: prod.splits sum.splits)
    qed
  qed
next
  show "evaluate_nodes_as_compound_command (OperatorNode q '';'' # rest) ctx st =
      evaluate_nodes_as_compound_command rest ctx st"
    by simp
next
  show "evaluate parsesingle d ''$(echo a; echo b)'' environment (Some ex) w =
      (Inr ''echo aecho b'', (environment, w))"
    using assms by (simp add: run)
qed


theorem compound_command_concatenates_witness:
  "(\<forall>cmd s. (\<lambda>cmd (s :: unit state). (Inr cmd :: error + string, s)) cmd s = (Inr cmd, s))
   \<and> evaluate
        (\<lambda>v. Inr (CommandNode (0, 17) [WordNode (0, 17) [CommandsubstitutionNode (0, 17)
          (OtherNode ''list'' (2, 16)
            [CommandNode (2, 8) [WordNode (2, 6) [], WordNode (7, 8) []],
             OperatorNode (8, 9) '';'',
             CommandNode (10, 16) [WordNode (10, 14) [], WordNode (15, 16) []]])]]))
        (\<lambda>cmd s. (Inl (OtherError ''no process''), s)) ''$(echo a; echo b)'' Map.empty
        (Some (\<lambda>cmd s. (Inr cmd, s))) () = (Inr ''echo aecho b'', (Map.empty, ()))"
proof -
  let ?parse = "\<lambda>v :: string. (Inr (CommandNode (0, 17) [WordNode (0, 17)
    [CommandsubstitutionNode (0, 17)
      (OtherNode ''list'' (2, 16)
        [CommandNode (2, 8) [WordNode (2, 6) [], WordNode (7, 8) []],
         OperatorNode (8, 9) '';'',
         CommandNode (10, 16) [WordNode (10, 14) [], WordNode (15, 16) []]])]])
    :: error + node)"
  have a: "\<forall>cmd s. (\<lambda>cmd (s :: unit state). (Inr cmd :: error + string, s)) cmd s =
      (Inr cmd, s)"
    by simp
  have b: "?parse ''$(echo a; echo b)'' =
      Inr (CommandNode (0, 17) [WordNode (0, 17) [CommandsubstitutionNode (0, 17)
        (OtherNode ''list'' (2, 16)
          [CommandNode (2, 8) [WordNode (2, 6) [], WordNode (7, 8) []],
           OperatorNode (8, 9) '';'',
           CommandNode (10, 16) [WordNode (10, 14) [], WordNode (15, 16) []]])]])"
    by simp
  from compound_command_concatenates [OF a, where parsesingle = ?parse, OF b,
      where d = "\<lambda>cmd s. (Inl (OtherError ''no process''), s)"
        and environment = Map.empty and w = "()"
        and ctx = "\<lparr>input = [], executor = (\<lambda>cmd s. (Inr cmd, s))\<rparr>"
        and st = "(Map.empty, ())" and p = "(0, 0)" and ps = "[]" and rest = "[]"
        and q = "(0, 0)"] a
  show ?thesis by simp
qed

lemma compound_before_operator:
  assumes "op \<noteq> '';''"
  shows "evaluate_nodes_as_compound_command (pre @ OperatorNode p op # post) ctx st =
    (case evaluate_nodes_as_compound_command pre ctx st of
       (Inl e, st') \<Rightarrow> (Inl e, st')
     | (Inr r, st') \<Rightarrow>
         (Inl (ValueError (''Unsupported bash operator: '' @ [dquote] @ op @ [dquote])), st'))"
  using assms by (simp add: compound_parts_append split: prod.splits sum.splits)

text \<open>
  Claim C4, as amended. A command whose parts contain an operator other than \<^verbatim>\<open>;\<close>
  always fails. The parts before that operator are evaluated first: when they
  evaluate without error, the failure is the ValueError that names the operator, in
  the state those parts left; when one of them fails, the failure is that part's
  own error.
\<close>

theorem unsupported_operator:
  assumes "op \<noteq> '';''"
    and "parts node = Inr (pre @ OperatorNode p op # post)"
  shows "(\<exists>e st'. evaluate_command_node node ctx st = (Inl e, st'))
    \<and> (\<forall>r st'. evaluate_nodes_as_compound_command pre ctx st = (Inr r, st') \<longrightarrow>
          evaluate_command_node node ctx st =
            (Inl (ValueError (''Unsupported bash operator: '' @ [dquote] @ op @ [dquote])),
             st'))
    \<and> (\<forall>e st'. evaluate_nodes_as_compound_command pre ctx st = (Inl e, st') \<longrightarrow>
          evaluate_command_node node ctx st = (Inl e, st'))"
proof -
  have "evaluate_command_node node ctx st =
      evaluate_nodes_as_compound_command (pre @ OperatorNode p op # post) ctx st"
    using assms(2) by (simp add: evaluate_command_node_parts)
  then have "evaluate_command_node node ctx st =
    (case evaluate_nodes_as_compound_command pre ctx st of
       (Inl e, st') \<Rightarrow> (Inl e, st')
     | (Inr r, st') \<Rightarrow>
         (Inl (ValueError (''Unsupported bash operator: '' @ [dquote] @ op @ [dquote])), st'))"
    by (simp only: compound_before_operator [OF assms(1)])
  then show ?thesis
    by (cases "evaluate_nodes_as_compound_command pre ctx st")
       (auto simp del: evaluate_nodes_as_compound_command.simps split: sum.splits)
qed

theorem unsupported_operator_witness:
  "''&&'' \<noteq> '';''
   \<and> parts (OtherNode ''list'' (0, 16)
        [CommandNode (0, 6) [WordNode (0, 4) [], WordNode (5, 6) []],
         OperatorNode (7, 9) ''&&'',
         CommandNode (10, 16) [WordNode (10, 14) [], WordNode (15, 16) []]]) =
       Inr ([CommandNode (0, 6) [WordNode (0, 4) [], WordNode (5, 6) []]]
            @ OperatorNode (7, 9) ''&&''
            # [CommandNode (10, 16) [WordNode (10, 14) [], WordNode (15, 16) []]])
   \<and> evaluate_nodes_as_compound_command
        [CommandNode (0, 6) [WordNode (0, 4) [], WordNode (5, 6) []]]
        \<lparr>input = ''echo a && echo b'',
         executor = (\<lambda>cmd (e, n). (Inr cmd, (e, Suc n)))\<rparr> (Map.empty, 0 :: nat) =
       (Inr ''echo a'', (Map.empty, 1))
   \<and> evaluate_command_node
        (OtherNode ''list'' (0, 16)
          [CommandNode (0, 6) [WordNode (0, 4) [], WordNode (5, 6) []],
           OperatorNode (7, 9) ''&&'',
           CommandNode (10, 16) [WordNode (10, 14) [], WordNode (15, 16) []]])
        \<lparr>input = ''echo a && echo b'',
         executor = (\<lambda>cmd (e, n). (Inr cmd, (e, Suc n)))\<rparr> (Map.empty, 0 :: nat) =
       (Inl (ValueError (''Unsupported bash operator: '' @ [dquote] @ ''&&'' @ [dquote])),
        (Map.empty, 1))"
proof -
  let ?pre = "[CommandNode (0, 6) [WordNode (0, 4) [], WordNode (5, 6) []]]"
  let ?post = "[CommandNode (10, 16) [WordNode (10, 14) [], WordNode (15, 16) []]]"
  let ?node = "OtherNode ''list'' (0, 16) (?pre @ OperatorNode (7, 9) ''&&'' # ?post)"
  let ?ctx = "\<lparr>input = ''echo a && echo b'',
    executor = (\<lambda>cmd (e :: environment, n :: nat). (Inr cmd :: error + string, (e, Suc n)))\<rparr>"
  have a: "''&&'' \<noteq> '';''"
    by simp
  have b: "parts ?node = Inr (?pre @ OperatorNode (7, 9) ''&&'' # ?post)"
    by simp
  have c: "evaluate_nodes_as_compound_command ?pre ?ctx (Map.empty, 0) =
      (Inr ''echo a'', (Map.empty, 1))"
    by (simp add: run)
  from unsupported_operator [OF a b, of ?ctx "(Map.empty, 0)"] c
  have "evaluate_command_node ?node ?ctx (Map.empty, 0) =
      (Inl (ValueError (''Unsupported bash operator: '' @ [dquote] @ ''&&'' @ [dquote])),
       (Map.empty, 1))"
    by blast
  with a b c show ?thesis by simp
qed

text \<open>
  The claim as it was stated, that the failure names the operator whatever the operands
  do, does not hold: in \<^verbatim>\<open>false && true\<close> with an executor that reports the failure of
  every command, the first command is executed and its error is the result.
\<close>

theorem unsupported_operator_counterexample:
  "evaluate_command_node
     (OtherNode ''list'' (0, 13)
       [CommandNode (0, 5) [WordNode (0, 5) []],
        OperatorNode (6, 8) ''&&'',
        CommandNode (9, 13) [WordNode (9, 13) []]])
     \<lparr>input = ''false && true'',
      executor = (\<lambda>cmd s. (Inl (CalledProcessError 1 cmd), s))\<rparr> (Map.empty, ()) =
   (Inl (CalledProcessError 1 ''false''), (Map.empty, ()))"
  by (simp add: run)

subsection \<open>The environment is only read\<close>

text \<open>
  Claim C9. When the executor in use (the one supplied, or the default one) does not
  change the environment dictionary, the dictionary is the same after the top-level
  call as before it, whether the call returns a string or fails: the evaluator reads
  it in the parameter lookup and hands it to the executor, and never writes to it.
\<close>

theorem environment_unchanged:
  assumes "\<forall>cmd s. fst (snd ((case ex' of None \<Rightarrow> d | Some ex \<Rightarrow> ex) cmd s)) = fst s"
  shows "fst (snd (evaluate parsesingle d inp environment ex' w)) = environment"
proof -
  let ?ctx = "\<lparr>input = inp, executor = (case ex' of None \<Rightarrow> d | Some ex \<Rightarrow> ex)\<rparr>"
  have "\<forall>cmd s. fst (snd (executor ?ctx cmd s)) = fst s"
    using assms by simp
  then have "fst (snd (evaluate_node n ?ctx (environment, w))) = environment" for n
    using frame_all(1) [of ?ctx n "(environment, w)"] by simp
  then show ?thesis
    by (simp add: evaluate_def split: sum.splits)
qed

theorem environment_unchanged_witness:
  "(\<forall>cmd s. fst (snd ((case Some (\<lambda>cmd (e :: environment, n :: nat).
        (Inr cmd :: error + string, (e, Suc n))) of
      None \<Rightarrow> (\<lambda>cmd s. (Inl (OtherError ''no process''), s)) | Some ex \<Rightarrow> ex) cmd s)) = fst s)
   \<and> fst (snd (evaluate
        (\<lambda>v. Inr (CommandNode (0, 17) [WordNode (0, 17) [CommandsubstitutionNode (0, 17)
          (OtherNode ''list'' (2, 16)
            [CommandNode (2, 8) [WordNode (2, 6) [], WordNode (7, 8) []],
             OperatorNode (8, 9) '';'',
             CommandNode (10, 16) [WordNode (10, 14) [], WordNode (15, 16) []]])]]))
        (\<lambda>cmd s. (Inl (OtherError ''no process''), s)) ''$(echo a; echo b)''
        [''A'' \<mapsto> ''1''] (Some (\<lambda>cmd (e, n). (Inr cmd, (e, Suc n)))) (0 :: nat))) =
       [''A'' \<mapsto> ''1'']"
proof -
  have a: "\<forall>cmd s. fst (snd ((case Some (\<lambda>cmd (e :: environment, n :: nat).
        (Inr cmd :: error + string, (e, Suc n))) of
      None \<Rightarrow> (\<lambda>cmd s. (Inl (OtherError ''no process''), s)) | Some ex \<Rightarrow> ex) cmd s)) = fst s"
    by (simp add: split_beta)
  show ?thesis
    by (intro conjI) (rule a, rule environment_unchanged [OF a])
qed

subsection \<open>Quote characters in the output of a command\<close>

text \<open>
  Claim C10. There is an executor output for which evaluation fails in the tokenizer:
  for the output \<^verbatim>\<open>don't\<close> of the command in \<^verbatim>\<open>$(cmd)\<close>, the word evaluator's field
  splitting raises the tokenizer's ValueError \<^verbatim>\<open>No closing quotation\<close>, which is none of
  the evaluator's own errors (too many parts, unsupported construct, operator or node)
  and not an error of the executor, which returned normally. Quote characters in an
  output are consumed where they match: the output \<^verbatim>\<open>"a  b"\<close>, with its double quotes,
  evaluates to the text between them.
\<close>

theorem unmatched_quote_in_output:
  "evaluate
     (\<lambda>v. Inr (CommandNode (0, 6) [WordNode (0, 6) [CommandsubstitutionNode (0, 6)
       (CommandNode (2, 5) [WordNode (2, 5) []])]]))
     d ''$(cmd)'' environment (Some (\<lambda>cmd s. (Inr (''don'' @ [squote] @ ''t''), s))) w =
     (Inl (ValueError ''No closing quotation''), (environment, w))
   \<and> (\<forall>v. ValueError ''No closing quotation'' \<noteq>
         ValueError ([dquote] @ v @ [dquote] @ '' has too many parts''))
   \<and> (\<forall>k. ValueError ''No closing quotation'' \<noteq>
         ValueError (''Unsupported bash construct: '' @ [dquote] @ k @ [dquote]))
   \<and> (\<forall>k. ValueError ''No closing quotation'' \<noteq>
         ValueError (''Unsupported bash operator: '' @ [dquote] @ k @ [dquote]))
   \<and> (\<forall>k. ValueError ''No closing quotation'' \<noteq>
         ValueError (''Unsupported bash node in compound command: '' @ [dquote] @ k @ [dquote]))
   \<and> evaluate
     (\<lambda>v. Inr (CommandNode (0, 6) [WordNode (0, 6) [CommandsubstitutionNode (0, 6)
       (CommandNode (2, 5) [WordNode (2, 5) []])]]))
     d ''$(cmd)'' environment (Some (\<lambda>cmd s. (Inr ([dquote] @ ''a  b'' @ [dquote]), s))) w =
     (Inr ''a  b'', (environment, w))"
  by (simp add: run)

subsection \<open>Field splitting of a word\<close>





subsection \<open>Evaluating a literal again\<close>







end
